theory Spec2Isabelle
  imports Complex_Main "HOL-Library.Multiset"
begin

section \<open>Job queue (backend/job\_queue.py)\<close>

text \<open>
  \<open>JobStatus\<close> is the enum of the source. Times (\<open>datetime.now()\<close>) are seconds on
  a clock passed in by the caller, one reading for each call of a function of the source
  (two for \<open>run_scheduled_job\<close>, which measures a duration); floats are read as reals.
\<close>

datatype JobStatus = PENDING | SCHEDULED | RUNNING | COMPLETED | DEFERRED

record GPUJob =
  job_id :: string
  name :: string
  duration_minutes :: int
  power_draw_watts :: int
  priority :: int
  status :: JobStatus
  carbon_intensity_threshold :: int
  submitted_at :: real
  scheduled_for :: "real option"
  emissions_avoided_kg :: real

text \<open>
  \<open>jobs\<close> is the in-memory list \<open>self.jobs\<close>; \<open>db_file\<close> is the content of the JSON
  snapshot (\<open>None\<close>: no file written yet). A reference to a job object held by a caller
  (the elements of the lists \<open>get_jobs_by_status\<close> returns) is the position of the object
  in \<open>self.jobs\<close>: the list only grows at its end and is never reordered.
\<close>

record JobQueue =
  jobs :: "GPUJob list"
  db_file :: "GPUJob list option"

definition save_jobs :: "JobQueue \<Rightarrow> JobQueue" where
  "save_jobs q = q\<lparr>db_file := Some (jobs q)\<rparr>"

definition add_job :: "GPUJob \<Rightarrow> JobQueue \<Rightarrow> string \<times> JobQueue" where
  "add_job job q = (job_id job, save_jobs (q\<lparr>jobs := jobs q @ [job]\<rparr>))"

definition job_refs_by_status :: "JobQueue \<Rightarrow> JobStatus \<Rightarrow> nat list" where
  "job_refs_by_status q s = filter (\<lambda>i. status (jobs q ! i) = s) [0..<length (jobs q)]"

definition deref :: "JobQueue \<Rightarrow> nat list \<Rightarrow> GPUJob list" where
  "deref q refs = map (\<lambda>i. jobs q ! i) refs"

definition get_jobs_by_status :: "JobQueue \<Rightarrow> JobStatus \<Rightarrow> GPUJob list" where
  "get_jobs_by_status q s = deref q (job_refs_by_status q s)"

text \<open>
  The loop of \<open>update_job_status\<close>: the first job with the id gets the new status;
  \<open>None\<close> when the loop ends without a match.
\<close>

fun set_first_status :: "string \<Rightarrow> JobStatus \<Rightarrow> GPUJob list \<Rightarrow> GPUJob list option" where
  "set_first_status jid s [] = None"
| "set_first_status jid s (j # js) =
     (if job_id j = jid then Some (j\<lparr>status := s\<rparr> # js)
      else map_option ((#) j) (set_first_status jid s js))"

definition update_job_status :: "string \<Rightarrow> JobStatus \<Rightarrow> JobQueue \<Rightarrow> bool \<times> JobQueue" where
  "update_job_status jid s q =
     (case set_first_status jid s (jobs q) of
        None \<Rightarrow> (False, q)
      | Some js \<Rightarrow> (True, save_jobs (q\<lparr>jobs := js\<rparr>)))"

text \<open>
  \<open>sorted(xs, key=k, reverse=True)\<close>: CPython reverses the list, sorts it with its stable
  sort and reverses the result, so equal keys keep their order.
\<close>

definition sorted_reverse :: "('a \<Rightarrow> int) \<Rightarrow> 'a list \<Rightarrow> 'a list" where
  "sorted_reverse k xs = rev (sort_key k (rev xs))"

definition prioritized_refs :: "JobQueue \<Rightarrow> nat list" where
  "prioritized_refs q =
     sorted_reverse (\<lambda>i. priority (jobs q ! i)) (job_refs_by_status q PENDING)"

definition get_prioritized_queue :: "JobQueue \<Rightarrow> GPUJob list" where
  "get_prioritized_queue q = deref q (prioritized_refs q)"

definition calculate_emissions_for_job :: "GPUJob \<Rightarrow> real" where
  "calculate_emissions_for_job job =
     (let power_kw = real_of_int (power_draw_watts job) / 1000;
          duration_h = real_of_int (duration_minutes job) / 60;
          carbon_intensity = 8 / 10
      in power_kw * duration_h * carbon_intensity)"


section \<open>Carbon signal (backend/carbon\_api.py)\<close>

datatype Greenness = HIGH | MEDIUM | LOW

text \<open>
  The six recommendation texts of the source, in the order they appear there: three of
  \<open>get_grid_carbon_intensity\<close> ("Schedule jobs NOW - Clean grid", "Wait for better
  conditions", "Defer jobs - Dirty grid") and three of \<open>_get_mock_data\<close> ("Schedule jobs
  NOW", "Monitor grid", "Defer jobs").
\<close>

datatype Recommendation =
    ScheduleNowCleanGrid | WaitForBetterConditions | DeferJobsDirtyGrid
  | ScheduleJobsNow | MonitorGrid | DeferJobs

text \<open>
  The returned dict. The key \<open>is_mock\<close> is present (and True) only in mock data;
  \<open>is_mock = False\<close> stands for its absence.
\<close>

record GridStatus =
  carbonIntensity :: real
  gs_timestamp :: real
  greenness :: Greenness
  recommendation :: Recommendation
  gs_region :: string
  gs_unit :: string
  is_mock :: bool

datatype py_error =
    RequestException | JSONDecodeError | AttributeError | TypeError
  | ValueError | KeyError | TrackerInitError

text \<open>
  What \<open>requests.get\<close> does is an input of the model. Of the decoded body the code reads
  one thing, \<open>data.get("carbonIntensity", 500)\<close>: the body is undecodable
  (\<open>response.json()\<close> raises), or JSON that is no object (\<open>data.get\<close> raises), or an
  object with or without a value under that key.
\<close>

datatype json_value = JNull | JBool bool | JNumber real | JString string | JArray | JObject

datatype payload = Undecodable | NonObject | Object "json_value option"

datatype http_outcome = RequestFailed | Response int payload

text \<open>
  The operand of \<open>carbon_intensity < 200\<close>: numbers compare, a bool compares as 0 or 1,
  anything else raises TypeError.
\<close>

fun as_number :: "json_value \<Rightarrow> py_error + real" where
  "as_number (JNumber x) = Inr x"
| "as_number (JBool b) = Inr (if b then 1 else 0)"
| "as_number JNull = Inl TypeError"
| "as_number (JString s) = Inl TypeError"
| "as_number JArray = Inl TypeError"
| "as_number JObject = Inl TypeError"

definition mock_data :: "string \<rightharpoonup> int" where
  "mock_data = map_of [(''IN'', 800), (''US'', 400), (''DE'', 350), (''NO'', 50), (''AU'', 600)]"

text \<open>\<open>jitter\<close> is the value drawn by \<open>random.randint(-100, 100)\<close>.\<close>

definition get_mock_data :: "string \<Rightarrow> int \<Rightarrow> real \<Rightarrow> GridStatus" where
  "get_mock_data region jitter now =
     (let intensity = (case mock_data region of None \<Rightarrow> 500 | Some v \<Rightarrow> v) + jitter
      in \<lparr>carbonIntensity = real_of_int intensity,
          gs_timestamp = now,
          greenness = (if intensity < 200 then HIGH else if intensity < 400 then MEDIUM else LOW),
          recommendation = (if intensity < 200 then ScheduleJobsNow
                            else if intensity < 400 then MonitorGrid else DeferJobs),
          gs_region = region,
          gs_unit = ''gCO2/kWh'',
          is_mock = True\<rparr>)"

text \<open>The body of the \<open>try\<close>: \<open>Inl\<close> is an exception raised inside it.\<close>

definition try_fetch :: "string \<Rightarrow> http_outcome \<Rightarrow> int \<Rightarrow> real \<Rightarrow> py_error + GridStatus" where
  "try_fetch region http jitter now =
     (case http of
        RequestFailed \<Rightarrow> Inl RequestException
      | Response status_code body \<Rightarrow>
          if status_code = 200 then
            (case body of
               Undecodable \<Rightarrow> Inl JSONDecodeError
             | NonObject \<Rightarrow> Inl AttributeError
             | Object field \<Rightarrow>
                 (case as_number (case field of None \<Rightarrow> JNumber 500 | Some v \<Rightarrow> v) of
                    Inl e \<Rightarrow> Inl e
                  | Inr carbon_intensity \<Rightarrow>
                      Inr \<lparr>carbonIntensity = carbon_intensity,
                           gs_timestamp = now,
                           greenness = (if carbon_intensity < 200 then HIGH
                                        else if carbon_intensity < 400 then MEDIUM else LOW),
                           recommendation = (if carbon_intensity < 200 then ScheduleNowCleanGrid
                                             else if carbon_intensity < 400 then WaitForBetterConditions
                                             else DeferJobsDirtyGrid),
                           gs_region = region,
                           gs_unit = ''gCO2/kWh'',
                           is_mock = False\<rparr>))
          else Inr (get_mock_data region jitter now))"

text \<open>\<open>except Exception\<close>: every exception of the body ends in the mock data.\<close>

definition get_grid_carbon_intensity :: "string \<Rightarrow> http_outcome \<Rightarrow> int \<Rightarrow> real \<Rightarrow> GridStatus" where
  "get_grid_carbon_intensity region http jitter now =
     (case try_fetch region http jitter now of
        Inl e \<Rightarrow> get_mock_data region jitter now
      | Inr r \<Rightarrow> r)"

text \<open>
  When the code falls back to the mock data. The \<open>try\<close> block raises on a body that
  does not decode (\<open>response.json()\<close>), on decoded JSON that is no object (\<open>data.get\<close>)
  and on a value under \<open>carbonIntensity\<close> that is null, a string, an array or an object
  (the comparison with 200); it does not raise on an object without the key, which reads
  as 500, nor on a number or a bool. The fallback is taken when the request itself raises,
  when the status is not 200, and when the block raises on the body.
\<close>

fun body_raises :: "payload \<Rightarrow> bool" where
  "body_raises Undecodable = True"
| "body_raises NonObject = True"
| "body_raises (Object None) = False"
| "body_raises (Object (Some (JNumber x))) = False"
| "body_raises (Object (Some (JBool b))) = False"
| "body_raises (Object (Some JNull)) = True"
| "body_raises (Object (Some (JString s))) = True"
| "body_raises (Object (Some JArray)) = True"
| "body_raises (Object (Some JObject)) = True"

fun falls_back :: "http_outcome \<Rightarrow> bool" where
  "falls_back RequestFailed = True"
| "falls_back (Response status_code body) = (status_code \<noteq> 200 \<or> body_raises body)"

text \<open>The baseline of a region: \<open>mock_data.get(region, 500)\<close>.\<close>

definition baseline :: "string \<Rightarrow> int" where
  "baseline region = (case mock_data region of None \<Rightarrow> 500 | Some v \<Rightarrow> v)"


section \<open>Emissions tracker (backend/emissions\_tracker.py)\<close>

text \<open>
  The measuring instrument (CodeCarbon or the dummy tracker) is an input: whether the
  online and the offline tracker can be constructed, and what \<open>stop()\<close> returns. A
  constructed tracker is taken to start and to stop without raising.
\<close>

record instrument =
  online_ok :: bool
  offline_ok :: bool
  measured :: real

datatype tracker_obj = EmissionsTracker string | OfflineEmissionsTracker string

record EmissionsRecord =
  job_name :: string
  emissions_kg_co2 :: real
  duration_seconds :: real
  er_timestamp :: real
  country :: string

text \<open>
  \<open>current_job\<close> and \<open>start_time\<close> are attributes only \<open>start_tracking\<close> sets
  (\<open>None\<close>: the attribute does not exist yet). \<open>emissions_file\<close> is the content of
  emissions.json.
\<close>

record GPUEmissionsTracker =
  country_code :: string
  tracker :: "tracker_obj option"
  current_job :: "string option"
  start_time :: "real option"
  emissions_log :: "EmissionsRecord list"
  emissions_file :: "EmissionsRecord list option"

definition save_emissions_log :: "GPUEmissionsTracker \<Rightarrow> GPUEmissionsTracker" where
  "save_emissions_log t = t\<lparr>emissions_file := Some (emissions_log t)\<rparr>"

definition start_tracking ::
  "instrument \<Rightarrow> string \<Rightarrow> real \<Rightarrow> GPUEmissionsTracker \<Rightarrow> py_error + GPUEmissionsTracker" where
  "start_tracking ins job now t =
     (if online_ok ins then
        Inr (t\<lparr>tracker := Some (EmissionsTracker (''greengl_'' @ job)),
               current_job := Some job, start_time := Some now\<rparr>)
      else if offline_ok ins then
        Inr (t\<lparr>tracker := Some (OfflineEmissionsTracker (country_code t)),
               current_job := Some job, start_time := Some now\<rparr>)
      else Inl TrackerInitError)"

text \<open>The returned dict: \<open>None\<close> is the empty dict \<open>{}\<close>.\<close>

definition stop_tracking ::
  "instrument \<Rightarrow> real \<Rightarrow> GPUEmissionsTracker
     \<Rightarrow> (py_error + EmissionsRecord option) \<times> GPUEmissionsTracker" where
  "stop_tracking ins now t =
     (case tracker t of
        None \<Rightarrow> (Inr None, t)
      | Some tr \<Rightarrow>
          (case start_time t of
             None \<Rightarrow> (Inl AttributeError, t)
           | Some st \<Rightarrow>
               (case current_job t of
                  None \<Rightarrow> (Inl AttributeError, t)
                | Some cj \<Rightarrow>
                    let record = \<lparr>job_name = cj,
                                  emissions_kg_co2 = measured ins,
                                  duration_seconds = now - st,
                                  er_timestamp = now,
                                  country = country_code t\<rparr>
                    in (Inr (Some record),
                        save_emissions_log (t\<lparr>emissions_log := emissions_log t @ [record]\<rparr>)))))"

definition get_total_emissions :: "GPUEmissionsTracker \<Rightarrow> real" where
  "get_total_emissions t = sum_list (map emissions_kg_co2 (emissions_log t))"

text \<open>The summary dict, as a map from its keys.\<close>

definition get_emissions_summary :: "GPUEmissionsTracker \<Rightarrow> (string \<rightharpoonup> real)" where
  "get_emissions_summary t =
     (if emissions_log t = [] then
        map_of [(''total_jobs'', 0),
                (''total_emissions_kg'', 0),
                (''avg_emissions_per_job_kg'', 0),
                (''total_duration_hours'', 0)]
      else
        (let es = map emissions_kg_co2 (emissions_log t);
             ds = map duration_seconds (emissions_log t)
         in map_of [(''total_jobs'', real (length (emissions_log t))),
                    (''total_emissions_kg'', sum_list es),
                    (''avg_emissions_per_job_kg'', sum_list es / real (length es)),
                    (''total_duration_hours'', sum_list ds / 3600),
                    (''max_single_job_kg'', fold max (tl es) (hd es)),
                    (''min_single_job_kg'', fold min (tl es) (hd es))]))"


section \<open>Scheduler (backend/carbon\_scheduler.py)\<close>

record ScheduleResult =
  sr_timestamp :: real
  sr_region :: string
  current_carbon_intensity :: real
  grid_greenness :: Greenness
  scheduled_count :: nat
  deferred_count :: nat
  total_scheduled_jobs :: nat
  estimated_emissions_saved_kg :: real
  scheduled_jobs :: "GPUJob list"
  deferred_jobs :: "GPUJob list"

record CarbonAwareScheduler =
  job_queue :: JobQueue
  emissions_tracker :: GPUEmissionsTracker
  schedule_history :: "ScheduleResult list"

text \<open>
  The \<open>for\<close> loop of \<open>schedule_pending_jobs\<close> over the references \<open>pending_jobs\<close>:
  \<open>update_job_status\<close> looks the job up by its id, the assignment to
  \<open>job.scheduled_for\<close> writes to the referenced object (after the snapshot was saved).
  Six hours are 21600 seconds.
\<close>

fun schedule_loop ::
  "real \<Rightarrow> real \<Rightarrow> nat list \<Rightarrow> JobQueue \<times> nat list \<times> nat list \<Rightarrow> JobQueue \<times> nat list \<times> nat list" where
  "schedule_loop ci now [] acc = acc"
| "schedule_loop ci now (r # rs) (q, scheduled, deferred) =
     (if ci < real_of_int (carbon_intensity_threshold (jobs q ! r)) then
        (let q1 = snd (update_job_status (job_id (jobs q ! r)) SCHEDULED q);
             q2 = q1\<lparr>jobs := (jobs q1)[r := (jobs q1 ! r)\<lparr>scheduled_for := Some now\<rparr>]\<rparr>
         in schedule_loop ci now rs (q2, scheduled @ [r], deferred))
      else
        (let q1 = snd (update_job_status (job_id (jobs q ! r)) DEFERRED q);
             q2 = q1\<lparr>jobs := (jobs q1)[r := (jobs q1 ! r)\<lparr>scheduled_for := Some (now + 21600)\<rparr>]\<rparr>
         in schedule_loop ci now rs (q2, scheduled, deferred @ [r])))"

text \<open>
  What one iteration of the loop of \<open>schedule_pending_jobs\<close> writes to the job it
  considers, at grid intensity \<open>ci\<close> and time \<open>now\<close>.
\<close>

definition decided :: "real \<Rightarrow> real \<Rightarrow> GPUJob \<Rightarrow> GPUJob" where
  "decided ci now j =
     (if ci < real_of_int (carbon_intensity_threshold j)
      then j\<lparr>status := SCHEDULED, scheduled_for := Some now\<rparr>
      else j\<lparr>status := DEFERRED, scheduled_for := Some (now + 21600)\<rparr>)"

definition schedule_pending_jobs ::
  "string \<Rightarrow> http_outcome \<Rightarrow> int \<Rightarrow> real \<Rightarrow> CarbonAwareScheduler
     \<Rightarrow> ScheduleResult \<times> CarbonAwareScheduler" where
  "schedule_pending_jobs region http jitter now s =
     (let grid_status = get_grid_carbon_intensity region http jitter now;
          carbon_intensity = carbonIntensity grid_status;
          pending_jobs = prioritized_refs (job_queue s)
      in case schedule_loop carbon_intensity now pending_jobs (job_queue s, [], []) of
           (q, scheduled, deferred) \<Rightarrow>
             let result = \<lparr>sr_timestamp = now,
                           sr_region = region,
                           current_carbon_intensity = carbon_intensity,
                           grid_greenness = greenness grid_status,
                           scheduled_count = length scheduled,
                           deferred_count = length deferred,
                           total_scheduled_jobs = length scheduled,
                           estimated_emissions_saved_kg =
                             sum_list (map calculate_emissions_for_job (deref q deferred)),
                           scheduled_jobs = deref q scheduled,
                           deferred_jobs = deref q deferred\<rparr>
             in (result, s\<lparr>job_queue := q, schedule_history := schedule_history s @ [result]\<rparr>))"

text \<open>
  \<open>next((j for j in jobs if j.job_id == job_id), None)\<close>: the reference to the first job
  with the id.
\<close>

fun find_job :: "string \<Rightarrow> GPUJob list \<Rightarrow> nat option" where
  "find_job jid [] = None"
| "find_job jid (j # js) = (if job_id j = jid then Some 0 else map_option Suc (find_job jid js))"

text \<open>The returned dict: \<open>{'error': 'Job not found'}\<close>, or the completed run.\<close>

datatype RunResult = JobNotFound | JobCompleted string real real

text \<open>
  \<open>run_scheduled_job\<close> returns the state as well when an exception leaves it: the
  construction of the tracker can fail, \<open>time.sleep\<close> raises ValueError on a negative
  argument, and the lookup in an empty record raises KeyError. \<open>t_start\<close> and \<open>t_stop\<close>
  are the clock readings of \<open>start_tracking\<close> and \<open>stop_tracking\<close>.
\<close>

definition run_scheduled_job ::
  "instrument \<Rightarrow> real \<Rightarrow> real \<Rightarrow> string \<Rightarrow> CarbonAwareScheduler
     \<Rightarrow> (py_error + RunResult) \<times> CarbonAwareScheduler" where
  "run_scheduled_job ins t_start t_stop jid s =
     (case find_job jid (jobs (job_queue s)) of
        None \<Rightarrow> (Inr JobNotFound, s)
      | Some r \<Rightarrow>
          let job = jobs (job_queue s) ! r;
              s1 = s\<lparr>job_queue := snd (update_job_status jid RUNNING (job_queue s))\<rparr>
          in case start_tracking ins (name job) t_start (emissions_tracker s1) of
               Inl e \<Rightarrow> (Inl e, s1)
             | Inr tr1 \<Rightarrow>
                 let s2 = s1\<lparr>emissions_tracker := tr1\<rparr>
                 in if min 5 (duration_minutes job) < 0 then (Inl ValueError, s2)
                    else
                      (case stop_tracking ins t_stop tr1 of
                         (Inl e, tr2) \<Rightarrow> (Inl e, s2\<lparr>emissions_tracker := tr2\<rparr>)
                       | (Inr None, tr2) \<Rightarrow> (Inl KeyError, s2\<lparr>emissions_tracker := tr2\<rparr>)
                       | (Inr (Some emissions_record), tr2) \<Rightarrow>
                           let q2 = job_queue s2;
                               q3 = q2\<lparr>jobs := (jobs q2)[r := (jobs q2 ! r)
                                      \<lparr>emissions_avoided_kg := emissions_kg_co2 emissions_record\<rparr>]\<rparr>;
                               q4 = snd (update_job_status jid COMPLETED q3)
                           in (Inr (JobCompleted jid (emissions_kg_co2 emissions_record)
                                      (duration_seconds emissions_record)),
                               s2\<lparr>job_queue := q4, emissions_tracker := tr2\<rparr>)))"


section \<open>Example inputs\<close>

text \<open>
  A job as the dashboard submits it, a tracker as \<open>__init__\<close> leaves it when there is no
  emissions.json, a scheduler holding given jobs, and a response of the grid API that
  reports a given intensity.
\<close>

definition example_job :: GPUJob where
  "example_job = \<lparr>job_id = ''a1b2c3d4'', name = ''training_job_1'', duration_minutes = 30,
     power_draw_watts = 250, priority = 3, status = PENDING, carbon_intensity_threshold = 400,
     submitted_at = 0, scheduled_for = None, emissions_avoided_kg = 0\<rparr>"

definition new_tracker :: GPUEmissionsTracker where
  "new_tracker = \<lparr>country_code = ''IN'', tracker = None, current_job = None,
     start_time = None, emissions_log = [], emissions_file = None\<rparr>"

definition scheduler_with :: "GPUJob list \<Rightarrow> CarbonAwareScheduler" where
  "scheduler_with js = \<lparr>job_queue = \<lparr>jobs = js, db_file = Some js\<rparr>,
     emissions_tracker = new_tracker, schedule_history = []\<rparr>"

definition grid_reports :: "real \<Rightarrow> http_outcome" where
  "grid_reports x = Response 200 (Object (Some (JNumber x)))"

text \<open>The instrument when CodeCarbon is not installed: the dummy tracker, which measures 0.\<close>

definition dummy_instrument :: instrument where
  "dummy_instrument = \<lparr>online_ok = True, offline_ok = True, measured = 0\<rparr>"

text \<open>Starting a bracket while another one is open.\<close>

definition start_twice :: "py_error + GPUEmissionsTracker" where
  "start_twice =
     (case start_tracking dummy_instrument ''job_a'' 1 new_tracker of
        Inl e \<Rightarrow> Inl e
      | Inr t \<Rightarrow> start_tracking dummy_instrument ''job_b'' 2 t)"





section \<open>Properties of the job queue\<close>

lemma deref_refs_by_status:
  "deref q (job_refs_by_status q s) = filter (\<lambda>j. status j = s) (jobs q)"
proof -
  have "map ((!) (jobs q)) (filter ((\<lambda>j. status j = s) \<circ> (!) (jobs q)) [0..<length (jobs q)])
        = filter (\<lambda>j. status j = s) (map ((!) (jobs q)) [0..<length (jobs q)])"
    by (simp only: filter_map)
  then show ?thesis
    by (simp add: deref_def job_refs_by_status_def map_nth comp_def)
qed

lemma filter_key_sorted_reverse:
  "filter (\<lambda>x. k x = p) (sorted_reverse k xs) = filter (\<lambda>x. k x = p) xs"
  by (simp add: sorted_reverse_def rev_filter [symmetric] sort_key_stable)

lemma mset_sorted_reverse: "mset (sorted_reverse k xs) = mset xs"
  by (simp add: sorted_reverse_def)

lemma descending_sorted_reverse:
  "sorted_wrt (\<lambda>a b. k b \<le> k a) (sorted_reverse k xs)"
proof -
  have "sorted (map k (sort_key k (rev xs)))"
    by (rule sorted_sort_key)
  then have "sorted_wrt (\<lambda>a b. k a \<le> k b) (sort_key k (rev xs))"
    by (simp add: sorted_wrt_map)
  then show ?thesis
    by (simp add: sorted_reverse_def sorted_wrt_rev)
qed

text \<open>
  C8. \<open>get_prioritized_queue\<close> returns exactly the PENDING jobs (as a multiset), in
  descending order of priority, and the jobs of each priority appear in the order they
  have in the store (their insertion order).
\<close>

theorem prioritized_queue_stable_descending:
  "mset (get_prioritized_queue q) = mset (filter (\<lambda>j. status j = PENDING) (jobs q))
   \<and> sorted_wrt (\<lambda>a b. priority b \<le> priority a) (get_prioritized_queue q)
   \<and> (\<forall>p. filter (\<lambda>j. priority j = p) (get_prioritized_queue q)
          = filter (\<lambda>j. priority j = p) (filter (\<lambda>j. status j = PENDING) (jobs q)))"
proof -
  let ?k = "\<lambda>i. priority (jobs q ! i)"
  let ?refs = "job_refs_by_status q PENDING"
  have m: "mset (get_prioritized_queue q) = mset (filter (\<lambda>j. status j = PENDING) (jobs q))"
  proof -
    have "mset (deref q (prioritized_refs q)) = image_mset ((!) (jobs q)) (mset ?refs)"
      by (simp add: deref_def prioritized_refs_def mset_sorted_reverse)
    also have "\<dots> = mset (deref q ?refs)"
      by (simp add: deref_def)
    finally show ?thesis
      by (simp add: get_prioritized_queue_def deref_refs_by_status)
  qed
  have s: "sorted_wrt (\<lambda>a b. priority b \<le> priority a) (get_prioritized_queue q)"
    using descending_sorted_reverse [of ?k ?refs]
    by (simp add: get_prioritized_queue_def deref_def prioritized_refs_def sorted_wrt_map)
  have f: "filter (\<lambda>j. priority j = p) (get_prioritized_queue q)
          = filter (\<lambda>j. priority j = p) (filter (\<lambda>j. status j = PENDING) (jobs q))" for p
  proof -
    have "filter (\<lambda>j. priority j = p) (deref q (prioritized_refs q))
          = map ((!) (jobs q)) (filter (\<lambda>i. ?k i = p) (sorted_reverse ?k ?refs))"
      by (simp add: deref_def prioritized_refs_def filter_map comp_def)
    also have "\<dots> = map ((!) (jobs q)) (filter (\<lambda>i. ?k i = p) ?refs)"
      by (simp only: filter_key_sorted_reverse)
    also have "\<dots> = filter (\<lambda>j. priority j = p) (deref q ?refs)"
      by (simp add: deref_def filter_map comp_def)
    finally show ?thesis
      by (simp add: get_prioritized_queue_def deref_refs_by_status)
  qed
  from m s f show ?thesis by blast
qed


section \<open>Properties of the evaluation cycle\<close>

lemma set_first_status_find_job:
  "set_first_status jid s js
   = map_option (\<lambda>r. js[r := (js ! r)\<lparr>status := s\<rparr>]) (find_job jid js)"
  by (induction js) (auto simp: option.map_comp comp_def)

lemma find_job_distinct:
  "distinct (map job_id js) \<Longrightarrow> r < length js \<Longrightarrow> find_job (job_id (js ! r)) js = Some r"
proof (induction js arbitrary: r)
  case Nil
  then show ?case by simp
next
  case (Cons j js)
  show ?case
  proof (cases r)
    case 0
    then show ?thesis by simp
  next
    case (Suc r')
    with Cons.prems have "job_id (js ! r') \<in> set (map job_id js)" by auto
    with Cons.prems have "job_id j \<noteq> job_id (js ! r')" by auto
    with Cons Suc show ?thesis by simp
  qed
qed

lemma find_job_Some:
  "find_job jid js = Some r \<Longrightarrow> r < length js \<and> job_id (js ! r) = jid"
  by (induction js arbitrary: r) (auto split: if_splits)

lemma find_job_None: "(find_job jid js = None) = (jid \<notin> set (map job_id js))"
  by (induction js) auto

lemma map_job_id_update:
  "r < length js \<Longrightarrow> job_id j = job_id (js ! r) \<Longrightarrow> map job_id (js[r := j]) = map job_id js"
  by (rule nth_equalityI) (auto simp: nth_list_update)

lemma jobs_update_job_status:
  "jobs (snd (update_job_status jid s q))
   = (case find_job jid (jobs q) of None \<Rightarrow> jobs q
      | Some r \<Rightarrow> (jobs q)[r := (jobs q ! r)\<lparr>status := s\<rparr>])"
  by (simp add: update_job_status_def set_first_status_find_job save_jobs_def
      split: option.splits)

lemma decided_idem: "decided ci now (decided ci now j) = decided ci now j"
  by (simp add: decided_def)

lemma job_id_decided: "job_id (decided ci now j) = job_id j"
  by (simp add: decided_def)

lemma schedule_loop_step:
  assumes "distinct (map job_id (jobs q))" and "r < length (jobs q)"
  shows "\<exists>q2 sc' df'.
           schedule_loop ci now (r # rs) (q, sc, df) = schedule_loop ci now rs (q2, sc', df')
           \<and> jobs q2 = (jobs q)[r := decided ci now (jobs q ! r)]"
proof -
  have f: "find_job (job_id (jobs q ! r)) (jobs q) = Some r"
    using assms by (rule find_job_distinct)
  show ?thesis
  proof (cases "ci < real_of_int (carbon_intensity_threshold (jobs q ! r))")
    case True
    show ?thesis
      apply (simp only: schedule_loop.simps True if_True Let_def)
      apply (intro exI conjI)
       apply (rule refl)
      using assms(2) True apply (simp add: jobs_update_job_status f decided_def)
      done
  next
    case False
    show ?thesis
      apply (simp only: schedule_loop.simps False if_False Let_def)
      apply (intro exI conjI)
       apply (rule refl)
      using assms(2) False apply (simp add: jobs_update_job_status f decided_def)
      done
  qed
qed

lemma map_job_id_decided_update:
  "r < length js \<Longrightarrow> map job_id (js[r := decided ci now (js ! r)]) = map job_id js"
  by (rule nth_equalityI) (auto simp: nth_list_update job_id_decided)

lemma schedule_loop_jobs:
  "distinct (map job_id (jobs q)) \<Longrightarrow> \<forall>r\<in>set refs. r < length (jobs q) \<Longrightarrow>
   jobs (fst (schedule_loop ci now refs (q, sc, df)))
   = map (\<lambda>i. if i \<in> set refs then decided ci now (jobs q ! i) else jobs q ! i)
       [0..<length (jobs q)]"
proof (induction refs arbitrary: q sc df)
  case Nil
  then show ?case by (simp add: map_nth)
next
  case (Cons r rs)
  from Cons.prems have r: "r < length (jobs q)" and rs: "\<forall>x\<in>set rs. x < length (jobs q)"
    by auto
  from schedule_loop_step [OF Cons.prems(1) r, of ci now rs sc df]
  obtain q2 sc' df' where
    step: "schedule_loop ci now (r # rs) (q, sc, df) = schedule_loop ci now rs (q2, sc', df')"
    and q2: "jobs q2 = (jobs q)[r := decided ci now (jobs q ! r)]"
    by blast
  have d: "distinct (map job_id (jobs q2))"
    using Cons.prems(1) r by (simp only: q2 map_job_id_decided_update)
  have l: "length (jobs q2) = length (jobs q)"
    by (simp add: q2)
  have ih: "jobs (fst (schedule_loop ci now rs (q2, sc', df')))
        = map (\<lambda>i. if i \<in> set rs then decided ci now (jobs q2 ! i) else jobs q2 ! i)
            [0..<length (jobs q2)]"
    using d rs by (intro Cons.IH) (simp_all add: l)
  show ?case
    unfolding step ih l
    by (rule map_cong [OF refl]) (auto simp: q2 decided_idem r nth_list_update)
qed


lemma set_prioritized_refs:
  "set (prioritized_refs q) = {i. i < length (jobs q) \<and> status (jobs q ! i) = PENDING}"
proof -
  have "set (prioritized_refs q) = set_mset (mset (prioritized_refs q))"
    by simp
  also have "\<dots> = set (job_refs_by_status q PENDING)"
    by (simp only: prioritized_refs_def mset_sorted_reverse set_mset_mset)
  finally show ?thesis
    by (auto simp: job_refs_by_status_def)
qed

lemma jobs_schedule_pending_jobs:
  "jobs (job_queue (snd (schedule_pending_jobs region http jitter now s)))
   = jobs (fst (schedule_loop (carbonIntensity (get_grid_carbon_intensity region http jitter now))
        now (prioritized_refs (job_queue s)) (job_queue s, [], [])))"
  by (simp add: schedule_pending_jobs_def Let_def split: prod.splits)

lemma jobs_after_cycle:
  assumes "distinct (map job_id (jobs (job_queue s)))"
  shows "jobs (job_queue (snd (schedule_pending_jobs region http jitter now s)))
   = map (\<lambda>i. if status (jobs (job_queue s) ! i) = PENDING
               then decided (carbonIntensity (get_grid_carbon_intensity region http jitter now))
                      now (jobs (job_queue s) ! i)
               else jobs (job_queue s) ! i)
       [0..<length (jobs (job_queue s))]"
proof -
  have b: "\<forall>r\<in>set (prioritized_refs (job_queue s)). r < length (jobs (job_queue s))"
    by (simp add: set_prioritized_refs)
  show ?thesis
    unfolding jobs_schedule_pending_jobs schedule_loop_jobs [OF assms b]
    by (rule map_cong [OF refl]) (simp add: set_prioritized_refs)
qed










lemma set_get_prioritized_queue:
  "set (get_prioritized_queue q) = {j \<in> set (jobs q). status j = PENDING}"
proof -
  have "mset (get_prioritized_queue q) = mset (deref q (job_refs_by_status q PENDING))"
    by (simp add: get_prioritized_queue_def deref_def prioritized_refs_def mset_sorted_reverse)
  then have "set (get_prioritized_queue q) = set (deref q (job_refs_by_status q PENDING))"
    by (rule mset_eq_setD)
  then show ?thesis
    by (auto simp: deref_refs_by_status)
qed

text \<open>
  C2, as claimed, fails: at intensity 150 a DEFERRED job with threshold 400 is not in the
  queue the cycle reads and comes out untouched, where the same job in status PENDING is
  set to SCHEDULED.
\<close>

theorem deferred_job_reevaluated_counterexample:
  "get_prioritized_queue (job_queue (scheduler_with [example_job\<lparr>status := DEFERRED\<rparr>])) = []
   \<and> jobs (job_queue (snd (schedule_pending_jobs ''X'' (grid_reports 150) 0 10
        (scheduler_with [example_job\<lparr>status := DEFERRED\<rparr>]))))
      = [example_job\<lparr>status := DEFERRED\<rparr>]
   \<and> jobs (job_queue (snd (schedule_pending_jobs ''X'' (grid_reports 150) 0 10
        (scheduler_with [example_job]))))
      = [example_job\<lparr>status := SCHEDULED, scheduled_for := Some 10\<rparr>]"
  by (simp add: schedule_pending_jobs_def scheduler_with_def example_job_def grid_reports_def
      get_grid_carbon_intensity_def try_fetch_def get_prioritized_queue_def prioritized_refs_def
      job_refs_by_status_def sorted_reverse_def deref_def update_job_status_def save_jobs_def
      Let_def)

text \<open>
  C2, amended. The queue an evaluation cycle reads holds exactly the PENDING jobs; in a
  store whose job ids are unique, the cycle leaves a DEFERRED job as it is.
\<close>

theorem evaluation_reads_pending_only:
  assumes "distinct (map job_id (jobs (job_queue s)))"
    and "i < length (jobs (job_queue s))"
    and "status (jobs (job_queue s) ! i) = DEFERRED"
  shows "set (get_prioritized_queue (job_queue s))
           = {j \<in> set (jobs (job_queue s)). status j = PENDING}
       \<and> jobs (job_queue (snd (schedule_pending_jobs region http jitter now s))) ! i
           = jobs (job_queue s) ! i"
  using assms(2,3) by (simp add: jobs_after_cycle [OF assms(1)] set_get_prioritized_queue)

theorem evaluation_reads_pending_only_witness:
  "set (get_prioritized_queue (job_queue (scheduler_with [example_job\<lparr>status := DEFERRED\<rparr>])))
     = {}
   \<and> status (jobs (job_queue (snd (schedule_pending_jobs ''X'' (grid_reports 150) 0 10
        (scheduler_with [example_job\<lparr>status := DEFERRED\<rparr>])))) ! 0) = DEFERRED"
proof -
  let ?s = "scheduler_with [example_job\<lparr>status := DEFERRED\<rparr>]"
  have d: "distinct (map job_id (jobs (job_queue ?s)))"
    and i: "0 < length (jobs (job_queue ?s))"
    and p: "status (jobs (job_queue ?s) ! 0) = DEFERRED"
    by (simp_all add: scheduler_with_def)
  from evaluation_reads_pending_only [OF d i p, of "''X''" "grid_reports 150" 0 10]
  show ?thesis
    by (simp add: scheduler_with_def)
qed


section \<open>Properties of running a job\<close>

text \<open>
  C10. For an id that no job of the store has, \<open>run_scheduled_job\<close> returns the
  "Job not found" result and the scheduler (job store and its snapshot, emissions tracker
  and ledger, schedule history) is exactly what it was.
\<close>

theorem run_unknown_job_changes_nothing:
  "jid \<notin> set (map job_id (jobs (job_queue s)))
   \<Longrightarrow> run_scheduled_job ins t_start t_stop jid s = (Inr JobNotFound, s)"
proof -
  assume "jid \<notin> set (map job_id (jobs (job_queue s)))"
  then have "find_job jid (jobs (job_queue s)) = None"
    by (simp add: find_job_None)
  then show ?thesis
    by (simp add: run_scheduled_job_def)
qed

theorem run_unknown_job_changes_nothing_witness:
  "run_scheduled_job dummy_instrument 10 15 ''00000000'' (scheduler_with [example_job])
   = (Inr JobNotFound, scheduler_with [example_job])"
  using run_unknown_job_changes_nothing
    [of "''00000000''" "scheduler_with [example_job]" dummy_instrument 10 15]
  by (simp add: scheduler_with_def example_job_def)


text \<open>
  C3, as claimed, fails: \<open>run_scheduled_job\<close> on a COMPLETED job returns the completed
  result and appends a ledger record (the job is run again), and on a DEFERRED job it
  changes the status to COMPLETED.
\<close>

theorem run_completed_job_counterexample:
  "fst (run_scheduled_job dummy_instrument 10 15 ''a1b2c3d4''
         (scheduler_with [example_job\<lparr>status := COMPLETED\<rparr>]))
     = Inr (JobCompleted ''a1b2c3d4'' 0 5)
   \<and> length (emissions_log (emissions_tracker (snd (run_scheduled_job dummy_instrument 10 15
         ''a1b2c3d4'' (scheduler_with [example_job\<lparr>status := COMPLETED\<rparr>]))))) = 1
   \<and> map status (jobs (job_queue (snd (run_scheduled_job dummy_instrument 10 15
         ''a1b2c3d4'' (scheduler_with [example_job\<lparr>status := DEFERRED\<rparr>])))))
     = [COMPLETED]"
  by (simp add: run_scheduled_job_def scheduler_with_def example_job_def dummy_instrument_def
      new_tracker_def start_tracking_def stop_tracking_def save_emissions_log_def
      update_job_status_def save_jobs_def Let_def)

lemma stop_after_start:
  assumes "start_tracking ins job t_start t = Inr tr1"
  shows "stop_tracking ins t_stop tr1
         = (Inr (Some \<lparr>job_name = job, emissions_kg_co2 = measured ins,
                        duration_seconds = t_stop - t_start, er_timestamp = t_stop,
                        country = country_code t\<rparr>),
            tr1\<lparr>emissions_log := emissions_log t @
                    [\<lparr>job_name = job, emissions_kg_co2 = measured ins,
                      duration_seconds = t_stop - t_start, er_timestamp = t_stop,
                      country = country_code t\<rparr>],
                 emissions_file := Some (emissions_log t @
                    [\<lparr>job_name = job, emissions_kg_co2 = measured ins,
                      duration_seconds = t_stop - t_start, er_timestamp = t_stop,
                      country = country_code t\<rparr>])\<rparr>)"
  using assms
  by (auto simp: start_tracking_def stop_tracking_def save_emissions_log_def Let_def
      split: if_splits)

lemma start_tracking_available:
  "online_ok ins \<or> offline_ok ins \<Longrightarrow> \<exists>tr1. start_tracking ins job now t = Inr tr1"
  by (auto simp: start_tracking_def)

lemma find_job_ids:
  "map job_id js = map job_id js' \<Longrightarrow> find_job jid js = find_job jid js'"
proof (induction js arbitrary: js')
  case Nil
  then show ?case by simp
next
  case (Cons j js)
  then obtain k ks where "js' = k # ks" by (cases js') auto
  with Cons show ?case by auto
qed

lemma start_tracking_unavailable:
  "\<not> online_ok ins \<Longrightarrow> \<not> offline_ok ins \<Longrightarrow> start_tracking ins job now t = Inl TrackerInitError"
  by (simp add: start_tracking_def)

lemma start_tracking_result:
  "start_tracking ins job now t = Inr tr1 \<Longrightarrow>
   tracker tr1 \<noteq> None \<and> current_job tr1 = Some job \<and> start_time tr1 = Some now
   \<and> emissions_log tr1 = emissions_log t \<and> emissions_file tr1 = emissions_file t
   \<and> country_code tr1 = country_code t"
  by (auto simp: start_tracking_def split: if_splits)

text \<open>
  C3, amended. \<open>run_scheduled_job\<close> checks no status. For the first job with the given
  id, whatever its status, it sets the job to RUNNING and changes no other job. When no
  tracker can be constructed the run fails there, and when the duration of the job is
  negative it fails after the bracket was opened; both leave the job RUNNING. Otherwise
  the run returns the completed result with the measured emissions, the job has the
  measured emissions and the status COMPLETED, the store is written to the snapshot and
  one record is appended to the ledger.
\<close>

theorem run_job_ignores_status:
  assumes "find_job jid (jobs (job_queue s)) = Some r"
  shows "(\<not> online_ok ins \<and> \<not> offline_ok ins \<longrightarrow>
            fst (run_scheduled_job ins t_start t_stop jid s) = Inl TrackerInitError
          \<and> jobs (job_queue (snd (run_scheduled_job ins t_start t_stop jid s)))
              = (jobs (job_queue s))[r := (jobs (job_queue s) ! r)\<lparr>status := RUNNING\<rparr>]
          \<and> emissions_tracker (snd (run_scheduled_job ins t_start t_stop jid s))
              = emissions_tracker s)
       \<and> ((online_ok ins \<or> offline_ok ins) \<and> duration_minutes (jobs (job_queue s) ! r) < 0 \<longrightarrow>
            fst (run_scheduled_job ins t_start t_stop jid s) = Inl ValueError
          \<and> jobs (job_queue (snd (run_scheduled_job ins t_start t_stop jid s)))
              = (jobs (job_queue s))[r := (jobs (job_queue s) ! r)\<lparr>status := RUNNING\<rparr>]
          \<and> tracker (emissions_tracker (snd (run_scheduled_job ins t_start t_stop jid s))) \<noteq> None
          \<and> emissions_log (emissions_tracker (snd (run_scheduled_job ins t_start t_stop jid s)))
              = emissions_log (emissions_tracker s))
       \<and> ((online_ok ins \<or> offline_ok ins) \<and> 0 \<le> duration_minutes (jobs (job_queue s) ! r) \<longrightarrow>
            fst (run_scheduled_job ins t_start t_stop jid s)
              = Inr (JobCompleted jid (measured ins) (t_stop - t_start))
          \<and> jobs (job_queue (snd (run_scheduled_job ins t_start t_stop jid s)))
              = (jobs (job_queue s))[r := (jobs (job_queue s) ! r)
                  \<lparr>emissions_avoided_kg := measured ins, status := COMPLETED\<rparr>]
          \<and> db_file (job_queue (snd (run_scheduled_job ins t_start t_stop jid s)))
              = Some ((jobs (job_queue s))[r := (jobs (job_queue s) ! r)
                  \<lparr>emissions_avoided_kg := measured ins, status := COMPLETED\<rparr>])
          \<and> emissions_log (emissions_tracker (snd (run_scheduled_job ins t_start t_stop jid s)))
              = emissions_log (emissions_tracker s) @
                  [\<lparr>job_name = name (jobs (job_queue s) ! r), emissions_kg_co2 = measured ins,
                    duration_seconds = t_stop - t_start, er_timestamp = t_stop,
                    country = country_code (emissions_tracker s)\<rparr>])"
proof -
  let ?js = "jobs (job_queue s)"
  from find_job_Some [OF assms]
  have r: "r < length ?js" and jid: "job_id (?js ! r) = jid"
    by simp_all
  have none: ?thesis if "\<not> online_ok ins" "\<not> offline_ok ins"
    using that
    by (simp add: run_scheduled_job_def assms Let_def start_tracking_unavailable
        jobs_update_job_status)
  have some: ?thesis if av: "online_ok ins \<or> offline_ok ins"
  proof -
    obtain tr1 where
      st: "start_tracking ins (name (?js ! r)) t_start (emissions_tracker s) = Inr tr1"
      using start_tracking_available [OF av] by blast
    note tr = start_tracking_result [OF st]
    show ?thesis
    proof (cases "duration_minutes (?js ! r) < 0")
      case True
      then have d: "min 5 (duration_minutes (?js ! r)) < 0"
        by simp
      from True av tr show ?thesis
        by (simp add: run_scheduled_job_def assms Let_def st d jobs_update_job_status)
    next
      case False
      then have d: "\<not> min 5 (duration_minutes (?js ! r)) < 0"
        by simp
      let ?js3 = "?js[r := (?js ! r)\<lparr>status := RUNNING, emissions_avoided_kg := measured ins\<rparr>]"
      have "map job_id ?js3 = map job_id ?js"
        using r by (simp add: map_job_id_update)
      then have "find_job jid ?js3 = find_job jid ?js"
        by (rule find_job_ids)
      then have f3: "find_job jid ?js3 = Some r"
        by (simp only: assms)
      from False av r show ?thesis
        by (simp add: run_scheduled_job_def assms Let_def st stop_after_start [OF st] d
            jobs_update_job_status f3 update_job_status_def set_first_status_find_job
            save_jobs_def)
    qed
  qed
  from none some show ?thesis by blast
qed

theorem run_job_ignores_status_witness:
  "fst (run_scheduled_job \<lparr>online_ok = False, offline_ok = False, measured = 0\<rparr> 10 15
         ''a1b2c3d4'' (scheduler_with [example_job\<lparr>status := COMPLETED\<rparr>]))
     = Inl TrackerInitError
   \<and> map status (jobs (job_queue (snd (run_scheduled_job
         \<lparr>online_ok = False, offline_ok = False, measured = 0\<rparr> 10 15
         ''a1b2c3d4'' (scheduler_with [example_job\<lparr>status := COMPLETED\<rparr>])))))
     = [RUNNING]
   \<and> fst (run_scheduled_job dummy_instrument 10 15 ''a1b2c3d4''
         (scheduler_with [example_job\<lparr>status := COMPLETED, duration_minutes := - 1\<rparr>]))
     = Inl ValueError
   \<and> map status (jobs (job_queue (snd (run_scheduled_job dummy_instrument 10 15 ''a1b2c3d4''
         (scheduler_with [example_job\<lparr>status := COMPLETED, duration_minutes := - 1\<rparr>])))))
     = [RUNNING]
   \<and> fst (run_scheduled_job dummy_instrument 10 15 ''a1b2c3d4''
         (scheduler_with [example_job\<lparr>status := RUNNING\<rparr>]))
     = Inr (JobCompleted ''a1b2c3d4'' 0 5)
   \<and> map status (jobs (job_queue (snd (run_scheduled_job dummy_instrument 10 15 ''a1b2c3d4''
         (scheduler_with [example_job\<lparr>status := RUNNING\<rparr>])))))
     = [COMPLETED]
   \<and> length (emissions_log (emissions_tracker (snd (run_scheduled_job dummy_instrument 10 15
         ''a1b2c3d4'' (scheduler_with [example_job\<lparr>status := RUNNING\<rparr>]))))) = 1"
proof -
  let ?none = "\<lparr>online_ok = False, offline_ok = False, measured = 0\<rparr>"
  let ?s1 = "scheduler_with [example_job\<lparr>status := COMPLETED\<rparr>]"
  let ?s2 = "scheduler_with [example_job\<lparr>status := COMPLETED, duration_minutes := - 1\<rparr>]"
  let ?s3 = "scheduler_with [example_job\<lparr>status := RUNNING\<rparr>]"
  have f: "find_job ''a1b2c3d4'' (jobs (job_queue ?s1)) = Some 0"
    "find_job ''a1b2c3d4'' (jobs (job_queue ?s2)) = Some 0"
    "find_job ''a1b2c3d4'' (jobs (job_queue ?s3)) = Some 0"
    by (simp_all add: scheduler_with_def example_job_def)
  have i: "\<not> online_ok ?none \<and> \<not> offline_ok ?none"
    "online_ok dummy_instrument \<or> offline_ok dummy_instrument"
    and d: "duration_minutes (jobs (job_queue ?s2) ! 0) < 0"
    "0 \<le> duration_minutes (jobs (job_queue ?s3) ! 0)"
    by (simp_all add: scheduler_with_def example_job_def dummy_instrument_def)
  from run_job_ignores_status [OF f(1), of ?none 10 15]
    run_job_ignores_status [OF f(2), of dummy_instrument 10 15]
    run_job_ignores_status [OF f(3), of dummy_instrument 10 15]
  show ?thesis
    using i d by (simp add: dummy_instrument_def scheduler_with_def new_tracker_def)
qed


section \<open>Properties of adding a job\<close>

text \<open>
  C4, as claimed, fails: a job with priority 9, duration 0 and power draw -5 is accepted,
  its id returned and the job written to the snapshot; a job that carries the status
  COMPLETED is inserted as COMPLETED.
\<close>

theorem add_invalid_job_counterexample:
  "fst (add_job (example_job\<lparr>priority := 9, duration_minutes := 0, power_draw_watts := - 5\<rparr>)
         \<lparr>jobs = [], db_file = None\<rparr>) = ''a1b2c3d4''
   \<and> db_file (snd (add_job
         (example_job\<lparr>priority := 9, duration_minutes := 0, power_draw_watts := - 5\<rparr>)
         \<lparr>jobs = [], db_file = None\<rparr>))
     = Some [example_job\<lparr>priority := 9, duration_minutes := 0, power_draw_watts := - 5\<rparr>]
   \<and> map status (jobs (snd (add_job (example_job\<lparr>status := COMPLETED\<rparr>)
         \<lparr>jobs = [], db_file = None\<rparr>))) = [COMPLETED]"
  by (simp add: add_job_def save_jobs_def example_job_def)

text \<open>
  C4, amended. \<open>add_job\<close> validates nothing and never fails: it returns the id of the job,
  appends the job as it is to the store, writes the store to the snapshot, and the job is
  the last of the jobs of the status it carries (PENDING when it was constructed with the
  default).
\<close>

theorem add_job_appends_unvalidated:
  "fst (add_job job q) = job_id job
   \<and> jobs (snd (add_job job q)) = jobs q @ [job]
   \<and> db_file (snd (add_job job q)) = Some (jobs q @ [job])
   \<and> get_jobs_by_status (snd (add_job job q)) (status job)
       = get_jobs_by_status q (status job) @ [job]"
  by (simp add: add_job_def save_jobs_def get_jobs_by_status_def deref_refs_by_status)


section \<open>Properties of the emissions tracker\<close>

text \<open>
  C5, as claimed, fails: \<open>stop_tracking\<close> on a tracker that never started returns the
  empty record without an error, and a second \<open>start_tracking\<close> succeeds and replaces
  the open bracket.
\<close>

theorem tracking_misuse_counterexample:
  "stop_tracking dummy_instrument 5 new_tracker = (Inr None, new_tracker)
   \<and> start_twice = Inr (new_tracker\<lparr>tracker := Some (EmissionsTracker ''greengl_job_b''),
                          current_job := Some ''job_b'', start_time := Some 2\<rparr>)"
  by (simp add: stop_tracking_def start_twice_def start_tracking_def new_tracker_def
      dummy_instrument_def)

text \<open>
  C5, amended. Whenever a tracker can be constructed, \<open>start_tracking\<close> succeeds, whether
  or not a bracket is open, and the one tracker slot then holds the new bracket (so there
  is at most one); \<open>stop_tracking\<close> with no tracker returns the empty record and changes
  nothing.
\<close>

theorem tracking_has_no_bracket_errors:
  "(online_ok ins \<or> offline_ok ins \<longrightarrow>
      (\<exists>tr. start_tracking ins job now t = Inr tr \<and> tracker tr \<noteq> None
            \<and> current_job tr = Some job \<and> start_time tr = Some now
            \<and> emissions_log tr = emissions_log t))
   \<and> (tracker t = None \<longrightarrow> stop_tracking ins now t = (Inr None, t))"
  by (auto simp: start_tracking_def stop_tracking_def)

theorem tracking_has_no_bracket_errors_witness:
  "start_tracking dummy_instrument ''job_b'' 2
      (new_tracker\<lparr>tracker := Some (EmissionsTracker ''greengl_job_a''),
                   current_job := Some ''job_a'', start_time := Some 1\<rparr>)
     \<noteq> Inl TrackerInitError
   \<and> stop_tracking dummy_instrument 5 new_tracker = (Inr None, new_tracker)"
proof -
  have i: "online_ok dummy_instrument \<or> offline_ok dummy_instrument"
    and n: "tracker new_tracker = None"
    by (simp_all add: dummy_instrument_def new_tracker_def)
  from tracking_has_no_bracket_errors [of dummy_instrument "''job_b''" 2
      "new_tracker\<lparr>tracker := Some (EmissionsTracker ''greengl_job_a''),
                   current_job := Some ''job_a'', start_time := Some 1\<rparr>"]
    tracking_has_no_bracket_errors [of dummy_instrument "''job_b''" 5 new_tracker]
  show ?thesis
    using i n by auto
qed


section \<open>Properties of the carbon signal\<close>

lemma get_mock_data_band:
  "- 100 \<le> jitter \<Longrightarrow> jitter \<le> 100 \<Longrightarrow>
   is_mock (get_mock_data region jitter now)
   \<and> real_of_int (baseline region - 100) \<le> carbonIntensity (get_mock_data region jitter now)
   \<and> carbonIntensity (get_mock_data region jitter now) \<le> real_of_int (baseline region + 100)"
  by (simp add: get_mock_data_def baseline_def Let_def)

lemma body_raises_as_number:
  "body_raises (Object field)
   = isl (as_number (case field of None \<Rightarrow> JNumber 500 | Some v \<Rightarrow> v))"
proof (cases field)
  case None
  then show ?thesis by simp
next
  case (Some v)
  then show ?thesis by (cases v) simp_all
qed

lemma try_fetch_raises:
  "isl (try_fetch region http jitter now)
   = (http = RequestFailed \<or> (\<exists>body. http = Response 200 body \<and> body_raises body))"
proof (cases http)
  case RequestFailed
  then show ?thesis by (simp add: try_fetch_def)
next
  case (Response status_code body)
  show ?thesis
  proof (cases body)
    case Undecodable
    with Response show ?thesis by (simp add: try_fetch_def)
  next
    case NonObject
    with Response show ?thesis by (simp add: try_fetch_def)
  next
    case (Object field)
    with Response show ?thesis
      by (simp add: try_fetch_def body_raises_as_number split: sum.splits)
  qed
qed

lemma fallback_gives_mock:
  assumes "falls_back http"
  shows "get_grid_carbon_intensity region http jitter now = get_mock_data region jitter now"
proof (cases http)
  case RequestFailed
  then show ?thesis
    by (simp add: get_grid_carbon_intensity_def try_fetch_def)
next
  case (Response status_code body)
  show ?thesis
  proof (cases "status_code = 200")
    case False
    with Response show ?thesis
      by (simp add: get_grid_carbon_intensity_def try_fetch_def)
  next
    case True
    with assms Response have "body_raises body" by simp
    with Response True have "isl (try_fetch region http jitter now)"
      by (simp only: try_fetch_raises) simp
    then show ?thesis
      by (auto simp: get_grid_carbon_intensity_def isl_def)
  qed
qed

lemma no_fallback_untagged:
  assumes "\<not> falls_back http"
  shows "\<not> is_mock (get_grid_carbon_intensity region http jitter now)"
proof (cases http)
  case RequestFailed
  with assms show ?thesis by simp
next
  case (Response status_code body)
  with assms have c: "status_code = 200" and nb: "\<not> body_raises body"
    by simp_all
  from nb obtain field where body: "body = Object field"
    by (cases body) simp_all
  from nb body have "\<not> isl (as_number (case field of None \<Rightarrow> JNumber 500 | Some v \<Rightarrow> v))"
    by (simp only: body_raises_as_number) simp
  then obtain x where "as_number (case field of None \<Rightarrow> JNumber 500 | Some v \<Rightarrow> v) = Inr x"
    by (cases "as_number (case field of None \<Rightarrow> JNumber 500 | Some v \<Rightarrow> v)") simp_all
  with Response c body show ?thesis
    by (simp add: get_grid_carbon_intensity_def try_fetch_def)
qed

text \<open>
  C6, as claimed, fails on a payload that holds no intensity: for a response with status
  200 whose JSON object lacks \<open>carbonIntensity\<close>, the status returned for the region NO
  (baseline 50, band up to 150) is not tagged \<open>is_mock\<close> and has the intensity 500; an
  object holding a bool is returned untagged as well.
\<close>

theorem missing_intensity_untagged_counterexample:
  "\<not> is_mock (get_grid_carbon_intensity ''NO'' (Response 200 (Object None)) 0 0)
   \<and> carbonIntensity (get_grid_carbon_intensity ''NO'' (Response 200 (Object None)) 0 0) = 500
   \<and> baseline ''NO'' + 100 = 150
   \<and> \<not> is_mock (get_grid_carbon_intensity ''NO'' (Response 200 (Object (Some (JBool True)))) 0 0)"
  by (simp add: get_grid_carbon_intensity_def try_fetch_def baseline_def mock_data_def)

text \<open>
  C6, amended. \<open>get_grid_carbon_intensity\<close> returns a grid status on every input: each
  exception of the \<open>try\<close> block ends in \<open>get_mock_data\<close>. For every jitter
  \<open>random.randint(-100, 100)\<close> can draw, the status is tagged \<open>is_mock\<close> with an intensity
  within 100 of the baseline of the region exactly when the code falls back (no response,
  a status other than 200, a body that does not decode to an object, a value that is
  null, a string, an array or an object); otherwise it is untagged, with the intensity
  500 for an object without the key, the number reported, or 0 or 1 for a bool.
\<close>

theorem fetch_fallback_is_synthetic:
  assumes "- 100 \<le> jitter" and "jitter \<le> 100"
  shows "(\<forall>e. try_fetch region http jitter now = Inl e \<longrightarrow>
            get_grid_carbon_intensity region http jitter now = get_mock_data region jitter now)
       \<and> (falls_back http \<longrightarrow>
            is_mock (get_grid_carbon_intensity region http jitter now)
          \<and> real_of_int (baseline region - 100)
               \<le> carbonIntensity (get_grid_carbon_intensity region http jitter now)
          \<and> carbonIntensity (get_grid_carbon_intensity region http jitter now)
               \<le> real_of_int (baseline region + 100))
       \<and> (\<not> falls_back http \<longrightarrow>
            \<not> is_mock (get_grid_carbon_intensity region http jitter now))
       \<and> carbonIntensity (get_grid_carbon_intensity region (Response 200 (Object None)) jitter now)
           = 500
       \<and> carbonIntensity (get_grid_carbon_intensity region
             (Response 200 (Object (Some (JNumber x)))) jitter now) = x
       \<and> carbonIntensity (get_grid_carbon_intensity region
             (Response 200 (Object (Some (JBool b)))) jitter now) = (if b then 1 else 0)"
proof -
  have a: "\<forall>e. try_fetch region http jitter now = Inl e \<longrightarrow>
      get_grid_carbon_intensity region http jitter now = get_mock_data region jitter now"
    by (simp add: get_grid_carbon_intensity_def)
  have f: "is_mock (get_grid_carbon_intensity region http jitter now)
      \<and> real_of_int (baseline region - 100)
           \<le> carbonIntensity (get_grid_carbon_intensity region http jitter now)
      \<and> carbonIntensity (get_grid_carbon_intensity region http jitter now)
           \<le> real_of_int (baseline region + 100)" if "falls_back http"
    unfolding fallback_gives_mock [OF that]
    using assms by (rule get_mock_data_band)
  have n: "\<not> is_mock (get_grid_carbon_intensity region http jitter now)"
    if "\<not> falls_back http"
    using that by (rule no_fallback_untagged)
  have c: "carbonIntensity (get_grid_carbon_intensity region (Response 200 (Object None)) jitter now)
      = 500"
    by (simp add: get_grid_carbon_intensity_def try_fetch_def)
  have d: "carbonIntensity (get_grid_carbon_intensity region
      (Response 200 (Object (Some (JNumber x)))) jitter now) = x"
    by (simp add: get_grid_carbon_intensity_def try_fetch_def)
  have e: "carbonIntensity (get_grid_carbon_intensity region
      (Response 200 (Object (Some (JBool b)))) jitter now) = (if b then 1 else 0)"
    by (simp add: get_grid_carbon_intensity_def try_fetch_def)
  from a f n c d e show ?thesis
    by blast
qed

theorem fetch_fallback_is_synthetic_witness:
  "baseline ''NO'' = 50
   \<and> try_fetch ''NO'' RequestFailed 7 0 = Inl RequestException
   \<and> is_mock (get_grid_carbon_intensity ''NO'' RequestFailed 7 0)
   \<and> - 50 \<le> carbonIntensity (get_grid_carbon_intensity ''NO'' RequestFailed 7 0)
   \<and> carbonIntensity (get_grid_carbon_intensity ''NO'' RequestFailed 7 0) \<le> 150
   \<and> is_mock (get_grid_carbon_intensity ''NO'' (Response 503 Undecodable) 7 0)
   \<and> is_mock (get_grid_carbon_intensity ''NO'' (Response 200 (Object (Some JNull))) 7 0)
   \<and> \<not> is_mock (get_grid_carbon_intensity ''NO'' (Response 200 (Object None)) 7 0)
   \<and> carbonIntensity (get_grid_carbon_intensity ''NO'' (Response 200 (Object None)) 7 0) = 500"
proof -
  have b: "baseline ''NO'' = 50"
    by (simp add: baseline_def mock_data_def)
  have t: "try_fetch ''NO'' RequestFailed 7 0 = Inl RequestException"
    by (simp add: try_fetch_def)
  have j: "- 100 \<le> (7::int)" "(7::int) \<le> 100"
    by simp_all
  note T = fetch_fallback_is_synthetic [OF j, where region = "''NO''" and now = 0]
  have f1: "falls_back RequestFailed" and f2: "falls_back (Response 503 Undecodable)"
    and f3: "falls_back (Response 200 (Object (Some JNull)))"
    and f4: "\<not> falls_back (Response 200 (Object None))"
    by simp_all
  from T [where http = RequestFailed] f1
  have 1: "is_mock (get_grid_carbon_intensity ''NO'' RequestFailed 7 0)
      \<and> real_of_int (baseline ''NO'' - 100)
           \<le> carbonIntensity (get_grid_carbon_intensity ''NO'' RequestFailed 7 0)
      \<and> carbonIntensity (get_grid_carbon_intensity ''NO'' RequestFailed 7 0)
           \<le> real_of_int (baseline ''NO'' + 100)"
    by blast
  from T [where http = "Response 503 Undecodable"] f2
  have 2: "is_mock (get_grid_carbon_intensity ''NO'' (Response 503 Undecodable) 7 0)"
    by blast
  from T [where http = "Response 200 (Object (Some JNull))"] f3
  have 3: "is_mock (get_grid_carbon_intensity ''NO'' (Response 200 (Object (Some JNull))) 7 0)"
    by blast
  from T [where http = "Response 200 (Object None)"] f4
  have 4: "\<not> is_mock (get_grid_carbon_intensity ''NO'' (Response 200 (Object None)) 7 0)
      \<and> carbonIntensity (get_grid_carbon_intensity ''NO'' (Response 200 (Object None)) 7 0) = 500"
    by blast
  from 1 have 5: "- 50 \<le> carbonIntensity (get_grid_carbon_intensity ''NO'' RequestFailed 7 0)
      \<and> carbonIntensity (get_grid_carbon_intensity ''NO'' RequestFailed 7 0) \<le> 150"
    by (simp add: b)
  from b t 1 2 3 4 5 show ?thesis
    by blast
qed

text \<open>
  C7, as claimed, fails at the intensity 400: both the fetched and the mock status of
  intensity exactly 400 are classified LOW, not MEDIUM.
\<close>

theorem greenness_at_400_counterexample:
  "carbonIntensity (get_grid_carbon_intensity ''DE'' (grid_reports 400) 0 0) = 400
   \<and> greenness (get_grid_carbon_intensity ''DE'' (grid_reports 400) 0 0) = LOW
   \<and> carbonIntensity (get_mock_data ''US'' 0 0) = 400
   \<and> greenness (get_mock_data ''US'' 0 0) = LOW"
  by (simp add: get_grid_carbon_intensity_def try_fetch_def grid_reports_def get_mock_data_def
      mock_data_def)

lemma greenness_get_mock_data:
  "greenness (get_mock_data region jitter now)
   = (if carbonIntensity (get_mock_data region jitter now) < 200 then HIGH
      else if carbonIntensity (get_mock_data region jitter now) < 400 then MEDIUM else LOW)"
  by (simp add: get_mock_data_def Let_def)

lemma greenness_get_grid_carbon_intensity:
  "greenness (get_grid_carbon_intensity region http jitter now)
   = (if carbonIntensity (get_grid_carbon_intensity region http jitter now) < 200 then HIGH
      else if carbonIntensity (get_grid_carbon_intensity region http jitter now) < 400 then MEDIUM
      else LOW)"
  by (simp add: get_grid_carbon_intensity_def try_fetch_def greenness_get_mock_data
      split: http_outcome.splits payload.splits sum.splits)

text \<open>
  C7, amended. For every status \<open>get_grid_carbon_intensity\<close> returns: an intensity below
  200 is HIGH, an intensity from 200 up to but excluding 400 is MEDIUM, and an intensity
  of 400 or more is LOW.
\<close>

theorem greenness_bands:
  "(carbonIntensity (get_grid_carbon_intensity region http jitter now) < 200
      \<longrightarrow> greenness (get_grid_carbon_intensity region http jitter now) = HIGH)
   \<and> (200 \<le> carbonIntensity (get_grid_carbon_intensity region http jitter now)
      \<and> carbonIntensity (get_grid_carbon_intensity region http jitter now) < 400
      \<longrightarrow> greenness (get_grid_carbon_intensity region http jitter now) = MEDIUM)
   \<and> (400 \<le> carbonIntensity (get_grid_carbon_intensity region http jitter now)
      \<longrightarrow> greenness (get_grid_carbon_intensity region http jitter now) = LOW)"
  by (simp add: greenness_get_grid_carbon_intensity)

theorem greenness_bands_witness:
  "greenness (get_grid_carbon_intensity ''DE'' (grid_reports 150) 0 0) = HIGH
   \<and> greenness (get_grid_carbon_intensity ''DE'' (grid_reports 200) 0 0) = MEDIUM
   \<and> greenness (get_grid_carbon_intensity ''DE'' (grid_reports 399) 0 0) = MEDIUM
   \<and> greenness (get_grid_carbon_intensity ''DE'' (grid_reports 401) 0 0) = LOW"
proof -
  have ci: "carbonIntensity (get_grid_carbon_intensity ''DE'' (grid_reports x) 0 0) = x" for x
    by (simp add: get_grid_carbon_intensity_def try_fetch_def grid_reports_def)
  from greenness_bands [of "''DE''" "grid_reports 150" 0 0]
    greenness_bands [of "''DE''" "grid_reports 200" 0 0]
    greenness_bands [of "''DE''" "grid_reports 399" 0 0]
    greenness_bands [of "''DE''" "grid_reports 401" 0 0]
  show ?thesis
    by (simp add: ci)
qed


section \<open>Properties of the emissions summary\<close>

text \<open>
  C9. On an empty ledger the summary has the four keys \<open>total_jobs\<close>,
  \<open>total_emissions_kg\<close>, \<open>avg_emissions_per_job_kg\<close> and \<open>total_duration_hours\<close>, all
  zero; the keys \<open>max_single_job_kg\<close> and \<open>min_single_job_kg\<close>, which the branch for a
  ledger with records returns, are absent.
\<close>

theorem empty_summary_lacks_max_min:
  "get_emissions_summary (t\<lparr>emissions_log := []\<rparr>) ''total_jobs'' = Some 0
   \<and> get_emissions_summary (t\<lparr>emissions_log := []\<rparr>) ''total_emissions_kg'' = Some 0
   \<and> get_emissions_summary (t\<lparr>emissions_log := []\<rparr>) ''avg_emissions_per_job_kg'' = Some 0
   \<and> get_emissions_summary (t\<lparr>emissions_log := []\<rparr>) ''total_duration_hours'' = Some 0
   \<and> get_emissions_summary (t\<lparr>emissions_log := []\<rparr>) ''max_single_job_kg'' = None
   \<and> get_emissions_summary (t\<lparr>emissions_log := []\<rparr>) ''min_single_job_kg'' = None"
  by (simp add: get_emissions_summary_def)

end
